theory Spec2Isabelle
  imports Complex_Main "HOL-Library.AList"
begin

section \<open>Constants (utils/constants)\<close>

definition VALID_MOVES :: "string list" where
  "VALID_MOVES = [''rock'', ''paper'', ''scissors'']"

definition WINNING_SCORE :: nat where
  "WINNING_SCORE = 3"

section \<open>Values and errors\<close>

text \<open>
  A thrown \<^verbatim>\<open>Error(msg)\<close> and a \<^verbatim>\<open>{success: false, error: msg}\<close> result are both
  the value \<open>Error msg\<close>, with the message of the source. A value that is \<^verbatim>\<open>null\<close> or a
  string is a \<open>string option\<close>; \<open>truthy\<close> is the JavaScript truth test on it (\<^verbatim>\<open>null\<close> and
  the empty string are false), \<open>includesJS\<close> is \<^verbatim>\<open>Array.prototype.includes\<close>.
\<close>

datatype error = Error string

definition truthy :: "string option \<Rightarrow> bool" where
  "truthy v = (case v of None \<Rightarrow> False | Some s \<Rightarrow> s \<noteq> [])"

definition includesJS :: "string list \<Rightarrow> string option \<Rightarrow> bool" where
  "includesJS xs v = (case v of None \<Rightarrow> False | Some s \<Rightarrow> s \<in> set xs)"

section \<open>Game logic (game/gameLogic)\<close>

datatype status = waiting_for_player | playing | finished

datatype round_winner = Player1 | Player2 | Draw

datatype position = Position1 | Position2

record player =
  idP :: "string option"
  socketId :: "string option"
  wallet :: "string option"
  wins :: nat
  currentMove :: "string option"
  ready :: bool
  stakeDeposited :: bool

record history_entry =
  hRound :: nat
  player1Move :: "string option"
  player2Move :: "string option"
  hWinner :: round_winner
  timestamp :: int

record round_result =
  rRound :: nat
  rMoves :: "string option \<times> string option"
  roundWinner :: "round_winner option"
  gameWinner :: "position option"
  scores :: "nat \<times> nat"
  gameFinished :: bool

text \<open>
  The game state of \<^verbatim>\<open>createGameState\<close>, with the fields that later code adds to the
  object (\<^verbatim>\<open>processed\<close>, \<^verbatim>\<open>completionProcessed\<close>, \<^verbatim>\<open>readyForCompletion\<close>,
  \<^verbatim>\<open>completionData\<close>; absent reads as false). Times are milliseconds since the epoch.
  The stake is a JavaScript number that the modelled code only compares, so it is an
  exact rational here; \<^verbatim>\<open>totalPot\<close>, \<^verbatim>\<open>platformFee\<close> and \<^verbatim>\<open>winnerPayout\<close> are
  floating-point products that no modelled operation reads, and are left out.
\<close>

record game =
  gameId :: string
  gameType :: string
  currency :: string
  stakeAmount :: rat
  player1 :: player
  player2 :: player
  currentRound :: nat
  gameStatus :: status
  winner :: "string option"
  moveHistory :: "history_entry list"
  createdAt :: int
  processed :: bool
  completionProcessed :: bool
  readyForCompletion :: bool
  completionData :: "round_result option"

definition winConditions :: "string \<Rightarrow> string option" where
  "winConditions = map_of [(''rock'', ''scissors''), (''scissors'', ''paper''), (''paper'', ''rock'')]"

definition determineWinner :: "string option \<Rightarrow> string option \<Rightarrow> error + round_winner" where
  "determineWinner move1 move2 =
     (if \<not> includesJS VALID_MOVES move1 \<or> \<not> includesJS VALID_MOVES move2
      then Inl (Error ''Invalid move provided'')
      else if move1 = move2 then Inr Draw
      else if Option.bind move1 winConditions = move2 then Inr Player1 else Inr Player2)"

definition emptyPlayer :: player where
  "emptyPlayer = \<lparr>idP = None, socketId = None, wallet = None, wins = 0, currentMove = None,
     ready = False, stakeDeposited = False\<rparr>"

definition createGameState :: "string \<Rightarrow> string \<Rightarrow> rat \<Rightarrow> string \<Rightarrow> int \<Rightarrow> game" where
  "createGameState gid gtype stake cur now =
     \<lparr>gameId = gid, gameType = gtype, currency = cur, stakeAmount = stake,
      player1 = emptyPlayer, player2 = emptyPlayer, currentRound = 1,
      gameStatus = waiting_for_player, winner = None, moveHistory = [], createdAt = now,
      processed = False, completionProcessed = False, readyForCompletion = False,
      completionData = None\<rparr>"

text \<open>
  Every operation on a game returns the game as the call leaves it, also when it throws:
  the source mutates the object in place, so what it wrote before a \<^verbatim>\<open>throw\<close> stays.
  The second component is the thrown error or the returned value. \<open>now\<close> is the clock
  read by \<^verbatim>\<open>new Date()\<close>.
\<close>

type_synonym move_result = "bool \<times> round_result option"

definition processRound :: "game \<Rightarrow> int \<Rightarrow> game \<times> (error + move_result)" where
  "processRound g now =
     (let move1 = currentMove (player1 g); move2 = currentMove (player2 g) in
      case determineWinner move1 move2 of
        Inl e \<Rightarrow> (g, Inl e)
      | Inr rw \<Rightarrow>
          let roundHistory = \<lparr>hRound = currentRound g, player1Move = move1, player2Move = move2,
                               hWinner = rw, timestamp = now\<rparr>;
              g1 = g\<lparr>moveHistory := moveHistory g @ [roundHistory]\<rparr>;
              g2 = (if rw = Player1 then g1\<lparr>player1 := (player1 g1)\<lparr>wins := wins (player1 g1) + 1\<rparr>\<rparr>
                    else if rw = Player2 then g1\<lparr>player2 := (player2 g1)\<lparr>wins := wins (player2 g1) + 1\<rparr>\<rparr>
                    else g1);
              gw = (if wins (player1 g2) \<ge> WINNING_SCORE then Some Position1
                    else if wins (player2 g2) \<ge> WINNING_SCORE then Some Position2 else None);
              g3 = (case gw of
                      Some Position1 \<Rightarrow> g2\<lparr>gameStatus := finished, winner := idP (player1 g2)\<rparr>
                    | Some Position2 \<Rightarrow> g2\<lparr>gameStatus := finished, winner := idP (player2 g2)\<rparr>
                    | None \<Rightarrow> g2)
          in (g3, Inr (True, Some \<lparr>rRound = hRound roundHistory, rMoves = (move1, move2),
                 roundWinner = Some rw, gameWinner = gw,
                 scores = (wins (player1 g3), wins (player2 g3)),
                 gameFinished = (gameStatus g3 = finished)\<rparr>)))"

definition processMove :: "game \<Rightarrow> string \<Rightarrow> string \<Rightarrow> int \<Rightarrow> game \<times> (error + move_result)" where
  "processMove g playerId move now =
     (if \<not> includesJS VALID_MOVES (Some move) then (g, Inl (Error (''Invalid move: '' @ move)))
      else if gameStatus g \<noteq> playing then (g, Inl (Error ''Game is not in playing state''))
      else
        let isPlayer1 = (idP (player1 g) = Some playerId);
            isPlayer2 = (idP (player2 g) = Some playerId) in
        if \<not> isPlayer1 \<and> \<not> isPlayer2 then (g, Inl (Error ''Player not in this game''))
        else
          let g1 = (if isPlayer1 then g\<lparr>player1 := (player1 g)\<lparr>currentMove := Some move\<rparr>\<rparr>
                    else g\<lparr>player2 := (player2 g)\<lparr>currentMove := Some move\<rparr>\<rparr>) in
          if truthy (currentMove (player1 g1)) \<and> truthy (currentMove (player2 g1))
          then processRound g1 now
          else (g1, Inr (False, None)))"

definition addPlayer ::
  "game \<Rightarrow> string \<Rightarrow> string option \<Rightarrow> string option \<Rightarrow> game \<times> (error + position)" where
  "addPlayer g playerId sock walletAddress =
     (if idP (player1 g) = Some playerId then
        (g\<lparr>player1 := (player1 g)\<lparr>socketId := sock,
              wallet := (if truthy walletAddress then walletAddress else wallet (player1 g)),
              currentMove := None, ready := False\<rparr>\<rparr>, Inr Position1)
      else if idP (player2 g) = Some playerId then
        (let g1 = g\<lparr>player2 := (player2 g)\<lparr>socketId := sock,
              wallet := (if truthy walletAddress then walletAddress else wallet (player2 g)),
              currentMove := None, ready := False\<rparr>\<rparr>;
             g2 = (if truthy (idP (player1 g1)) \<and> truthy (idP (player2 g1))
                      \<and> gameStatus g1 = waiting_for_player
                   then g1\<lparr>gameStatus := playing, currentRound := 1\<rparr> else g1)
         in (g2, Inr Position2))
      else if idP (player1 g) = None then
        (g\<lparr>player1 := (player1 g)\<lparr>idP := Some playerId, socketId := sock,
              wallet := walletAddress\<rparr>\<rparr>, Inr Position1)
      else if idP (player2 g) = None then
        (g\<lparr>player2 := (player2 g)\<lparr>idP := Some playerId, socketId := sock,
              wallet := walletAddress\<rparr>, gameStatus := playing, currentRound := 1\<rparr>, Inr Position2)
      else (g, Inl (Error ''Game is full'')))"

section \<open>Game manager (game/gameManager)\<close>

text \<open>
  \<^verbatim>\<open>games\<close> is a JavaScript \<^verbatim>\<open>Map\<close>, which iterates in insertion order and keeps the
  place of a key that is set again: an association list with \<open>AList.update\<close>. The objects
  in it are shared with every caller, so each operation writes the game it changed back
  under its id. \<^verbatim>\<open>playerGames\<close> is only looked up, set and deleted by key.
\<close>

record ticket =
  playerId :: string
  tSocketId :: "string option"
  tStakeAmount :: rat
  tCurrency :: string
  tWalletAddress :: "string option"
  queuedAt :: int

record manager =
  games :: "(string \<times> game) list"
  playerGames :: "string \<rightharpoonup> string"
  publicQueue :: "ticket list"

definition getGame :: "manager \<Rightarrow> string \<Rightarrow> game option" where
  "getGame m gid = map_of (games m) gid"

definition setGame :: "manager \<Rightarrow> string \<Rightarrow> game \<Rightarrow> manager" where
  "setGame m gid g = m\<lparr>games := AList.update gid g (games m)\<rparr>"

definition getPlayerGame :: "manager \<Rightarrow> string \<Rightarrow> game option" where
  "getPlayerGame m pid =
     (let gid = playerGames m pid in
      if \<not> truthy gid then None else Option.bind gid (getGame m))"

definition containsPlayer :: "game \<Rightarrow> string \<Rightarrow> bool" where
  "containsPlayer g pid \<longleftrightarrow> idP (player1 g) = Some pid \<or> idP (player2 g) = Some pid"

text \<open>
  The lookup that opens \<^verbatim>\<open>submitMove\<close>: the \<^verbatim>\<open>playerGames\<close> entry, and when that is
  missing the three searches of the source in their order, each of which restores the
  entry when it finds a game. The second and third walk the games from the newest.
\<close>

definition locateGame :: "manager \<Rightarrow> string \<Rightarrow> string option \<Rightarrow> manager \<times> string option" where
  "locateGame m pid requestedGameId =
     (let gameId = playerGames m pid in
      if truthy gameId then (m, gameId)
      else
        let (m1, gameId1) =
              (case requestedGameId of
                 None \<Rightarrow> (m, gameId)
               | Some rid \<Rightarrow>
                   if \<not> truthy requestedGameId then (m, gameId)
                   else (case getGame m rid of
                           None \<Rightarrow> (m, gameId)
                         | Some rg \<Rightarrow>
                             if containsPlayer rg pid \<and> gameStatus rg = playing
                             then (m\<lparr>playerGames := (playerGames m)(pid \<mapsto> rid)\<rparr>, Some rid)
                             else (m, gameId)));
            (m2, gameId2) =
              (if \<not> truthy gameId1
               then (case find (\<lambda>(gId, gs). containsPlayer gs pid \<and> gameStatus gs = playing)
                            (rev (games m1)) of
                       None \<Rightarrow> (m1, gameId1)
                     | Some (gId, gs) \<Rightarrow> (m1\<lparr>playerGames := (playerGames m1)(pid \<mapsto> gId)\<rparr>, Some gId))
               else (m1, gameId1));
            (m3, gameId3) =
              (if \<not> truthy gameId2
               then (case find (\<lambda>(gId, gs). containsPlayer gs pid) (rev (games m2)) of
                       None \<Rightarrow> (m2, gameId2)
                     | Some (gId, gs) \<Rightarrow> (m2\<lparr>playerGames := (playerGames m2)(pid \<mapsto> gId)\<rparr>, Some gId))
               else (m2, gameId2))
        in (m3, gameId3))"

definition submitMove ::
  "manager \<Rightarrow> string \<Rightarrow> string \<Rightarrow> string option \<Rightarrow> int
     \<Rightarrow> manager \<times> (error + string \<times> game \<times> move_result)" where
  "submitMove m pid move requestedGameId now =
     (let (m1, gameId) = locateGame m pid requestedGameId in
      case gameId of
        None \<Rightarrow> (m1, Inl (Error ''Player not in any game''))
      | Some gid \<Rightarrow>
          if \<not> truthy gameId then (m1, Inl (Error ''Player not in any game''))
          else (case getGame m1 gid of
                  None \<Rightarrow> (m1, Inl (Error ''Game not found''))
                | Some gs \<Rightarrow>
                    if \<not> containsPlayer gs pid then (m1, Inl (Error ''Player is not in this game''))
                    else (case processMove gs pid move now of
                            (gs1, Inl e) \<Rightarrow> (setGame m1 gid gs1, Inl e)
                          | (gs1, Inr (roundComplete, roundResult)) \<Rightarrow>
                              let gs2 = (case roundResult of
                                           None \<Rightarrow> gs1
                                         | Some rr \<Rightarrow>
                                             if gameFinished rr
                                             then gs1\<lparr>readyForCompletion := True,
                                                      completionData := roundResult\<rparr>
                                             else gs1)
                              in (setGame m1 gid gs2, Inr (gid, gs2, roundComplete, roundResult)))))"

fun spliceFirst :: "('a \<Rightarrow> bool) \<Rightarrow> 'a list \<Rightarrow> 'a list" where
  "spliceFirst P [] = []"
| "spliceFirst P (x # xs) = (if P x then xs else x # spliceFirst P xs)"

text \<open>
  \<^verbatim>\<open>removePlayer\<close>. The refund calls of its last branch go to the profile store and the
  ledger and change nothing of the manager; they are not part of the model.
\<close>

definition removePlayer :: "manager \<Rightarrow> string \<Rightarrow> manager \<times> (error + string \<times> game)" where
  "removePlayer m pid =
     (let m1 = m\<lparr>publicQueue := spliceFirst (\<lambda>p. playerId p = pid) (publicQueue m)\<rparr>;
          gameId = playerGames m1 pid in
      case gameId of
        None \<Rightarrow> (m1, Inl (Error ''Player not in any game''))
      | Some gid \<Rightarrow>
          if \<not> truthy gameId then (m1, Inl (Error ''Player not in any game''))
          else (case getGame m1 gid of
                  None \<Rightarrow> (m1, Inl (Error ''Game not found''))
                | Some gs \<Rightarrow>
                    let gs1 = (if idP (player1 gs) = Some pid then gs\<lparr>player1 := emptyPlayer\<rparr>
                               else if idP (player2 gs) = Some pid then gs\<lparr>player2 := emptyPlayer\<rparr>
                               else gs);
                        m2 = m1\<lparr>playerGames := (playerGames m1)(pid := None)\<rparr>;
                        gs2 = (if \<not> truthy (idP (player1 gs1)) \<and> \<not> truthy (idP (player2 gs1))
                               then gs1\<lparr>gameStatus := finished\<rparr>
                               else if gameStatus gs1 = playing
                               then gs1\<lparr>gameStatus := finished,
                                        winner := (if truthy (idP (player1 gs1)) then idP (player1 gs1)
                                                   else idP (player2 gs1))\<rparr>
                               else gs1)
                    in (setGame m2 gid gs2, Inr (gid, gs2))))"

definition processRoundDirectly ::
  "manager \<Rightarrow> string \<Rightarrow> int \<Rightarrow> manager \<times> (error + string \<times> game \<times> move_result)" where
  "processRoundDirectly m gid now =
     (case getGame m gid of
        None \<Rightarrow> (m, Inl (Error ''Game not found''))
      | Some gs \<Rightarrow>
          if \<not> truthy (currentMove (player1 gs)) \<or> \<not> truthy (currentMove (player2 gs))
          then (m, Inl (Error ''Both players must have moves to process round''))
          else (case processRound gs now of
                  (gs1, Inl e) \<Rightarrow> (setGame m gid gs1, Inl e)
                | (gs1, Inr r) \<Rightarrow> (setGame m gid gs1, Inr (gid, gs1, r))))"

text \<open>
  \<^verbatim>\<open>cleanupOldGames\<close>: one pass over the games that collects the ids to remove and deletes
  the \<^verbatim>\<open>playerGames\<close> entries of their occupants, then the removal of the collected games.
\<close>

definition isOldFinished :: "int \<Rightarrow> int \<Rightarrow> game \<Rightarrow> bool" where
  "isOldFinished now maxAge gs \<longleftrightarrow> gameStatus gs = finished \<and> now - createdAt gs > maxAge"

definition deleteOccupants :: "game \<Rightarrow> (string \<rightharpoonup> string) \<Rightarrow> (string \<rightharpoonup> string)" where
  "deleteOccupants gs pg =
     (let pg1 = (case idP (player1 gs) of
                   Some i \<Rightarrow> if truthy (Some i) then pg(i := None) else pg | None \<Rightarrow> pg)
      in (case idP (player2 gs) of
            Some i \<Rightarrow> if truthy (Some i) then pg1(i := None) else pg1 | None \<Rightarrow> pg1))"

fun cleanupScan ::
  "int \<Rightarrow> int \<Rightarrow> (string \<times> game) list \<Rightarrow> string list \<times> (string \<rightharpoonup> string)
     \<Rightarrow> string list \<times> (string \<rightharpoonup> string)" where
  "cleanupScan now maxAge [] acc = acc"
| "cleanupScan now maxAge ((gid, gs) # rest) (gamesToRemove, pg) =
     (if isOldFinished now maxAge gs
      then cleanupScan now maxAge rest (gamesToRemove @ [gid], deleteOccupants gs pg)
      else cleanupScan now maxAge rest (gamesToRemove, pg))"

definition cleanupOldGames :: "manager \<Rightarrow> int \<Rightarrow> int \<Rightarrow> manager \<times> nat" where
  "cleanupOldGames m maxAge now =
     (let (gamesToRemove, pg) = cleanupScan now maxAge (games m) ([], playerGames m)
      in (m\<lparr>games := fold AList.delete gamesToRemove (games m), playerGames := pg\<rparr>,
          length gamesToRemove))"

text \<open>
  \<^verbatim>\<open>createGame\<close>, \<^verbatim>\<open>joinGame\<close> and \<^verbatim>\<open>findRandomMatch\<close> are \<^verbatim>\<open>async\<close>: they wait for
  the profile store's \<^verbatim>\<open>hasEnoughPoints(wallet, 100)\<close>, here the parameter \<open>hasPts\<close>, and
  are modelled as running to their end without another request in between. \<open>uuid\<close> is
  the value \<^verbatim>\<open>uuidv4()\<close> returns.
\<close>

definition createGame ::
  "manager \<Rightarrow> string \<Rightarrow> rat \<Rightarrow> string \<Rightarrow> string option \<Rightarrow> string option \<Rightarrow> string option
     \<Rightarrow> string option \<Rightarrow> string \<Rightarrow> int \<Rightarrow> (string \<Rightarrow> bool)
     \<Rightarrow> manager \<times> (error + string \<times> game \<times> position option)" where
  "createGame m gtype stake cur creatorId sock walletAddress providedGameId uuid now hasPts =
     (if cur = ''points'' \<and> stake \<noteq> 100
      then (m, Inl (Error ''Points games must cost exactly 100 points''))
      else if cur = ''points'' \<and> truthy walletAddress \<and> \<not> hasPts (the walletAddress)
      then (m, Inl (Error ''Insufficient points. You need 100 points to play.''))
      else if cur = ''sol'' \<and> stake \<le> 0
      then (m, Inl (Error ''SOL games must have a positive stake amount''))
      else if cur \<noteq> ''points'' \<and> cur \<noteq> ''sol''
      then (m, Inl (Error ''Invalid currency. Must be \"points\" or \"sol\"''))
      else
        let gid0 = (if truthy providedGameId then the providedGameId else uuid);
            gid = (if cur = ''sol'' \<and> length gid0 > 32
                   then take 32 (filter (\<lambda>c. c \<noteq> CHR ''-'') gid0) else gid0);
            gameState = createGameState gid gtype stake cur now
        in if truthy creatorId \<and> truthy sock
           then
             let cid = the creatorId;
                 m1 = m\<lparr>playerGames := (playerGames m)(cid := None)\<rparr>;
                 (updatedState, res) = addPlayer gameState cid sock walletAddress;
                 updatedState1 = (if cur = ''sol''
                                  then updatedState\<lparr>player1 := (player1 updatedState)\<lparr>stakeDeposited := True\<rparr>\<rparr>
                                  else updatedState);
                 m2 = (setGame m1 gid updatedState1)\<lparr>playerGames := (playerGames m1)(cid \<mapsto> gid)\<rparr>
             in (m2, Inr (gid, updatedState1, (case res of Inr pos \<Rightarrow> Some pos | Inl _ \<Rightarrow> None)))
           else (setGame m gid gameState, Inr (gid, gameState, None)))"

definition joinGame ::
  "manager \<Rightarrow> string \<Rightarrow> string \<Rightarrow> string option \<Rightarrow> string option \<Rightarrow> (string \<Rightarrow> bool)
     \<Rightarrow> manager \<times> (error + string \<times> game \<times> position \<times> bool)" where
  "joinGame m gid pid sock walletAddress hasPts =
     (case getGame m gid of
        None \<Rightarrow> (m, Inl (Error ''Game not found''))
      | Some gameState \<Rightarrow>
          if gameStatus gameState = finished then (m, Inl (Error ''Game already finished''))
          else if gameStatus gameState = playing then (m, Inl (Error ''Game already in progress''))
          else if currency gameState = ''points'' \<and> truthy walletAddress \<and> \<not> hasPts (the walletAddress)
          then (m, Inl (Error ''Insufficient points. You need 100 points to join this game.''))
          else
            let m1 = (case playerGames m pid of
                        None \<Rightarrow> m
                      | Some oldGameId \<Rightarrow>
                          if oldGameId \<noteq> gid then m\<lparr>playerGames := (playerGames m)(pid := None)\<rparr>
                          else m)
            in (case addPlayer gameState pid sock walletAddress of
                  (gs1, Inl e) \<Rightarrow> (setGame m1 gid gs1, Inl e)
                | (gs1, Inr pos) \<Rightarrow>
                    let updatedState = (if currency gameState = ''sol''
                                        then gs1\<lparr>player2 := (player2 gs1)\<lparr>stakeDeposited := True\<rparr>\<rparr>
                                        else gs1);
                        m2 = (setGame m1 gid updatedState)\<lparr>playerGames := (playerGames m1)(pid \<mapsto> gid)\<rparr>;
                        m3 = (case idP (player1 updatedState) of
                                None \<Rightarrow> m2
                              | Some p1 \<Rightarrow> if truthy (Some p1)
                                           then m2\<lparr>playerGames := (playerGames m2)(p1 \<mapsto> gid)\<rparr> else m2)
                    in (m3, Inr (gid, updatedState, pos, gameStatus updatedState = playing))))"

text \<open>
  The two searches of \<^verbatim>\<open>findRandomMatch\<close>: the first public game that waits for a player
  with the same stake and currency, and the first queued ticket with the same stake and
  currency; both skip the requester.
\<close>

definition findWaitingGame ::
  "(string \<times> game) list \<Rightarrow> string \<Rightarrow> rat \<Rightarrow> string \<Rightarrow> (string \<times> game) option" where
  "findWaitingGame gs pid stake cur =
     find (\<lambda>(gId, gameState). gameType gameState = ''public''
              \<and> gameStatus gameState = waiting_for_player
              \<and> stakeAmount gameState = stake
              \<and> currency gameState = cur
              \<and> idP (player1 gameState) \<noteq> Some pid) gs"

definition findQueuedPlayer :: "ticket list \<Rightarrow> string \<Rightarrow> rat \<Rightarrow> string \<Rightarrow> ticket option" where
  "findQueuedPlayer q pid stake cur =
     find (\<lambda>p. playerId p \<noteq> pid \<and> tStakeAmount p = stake \<and> tCurrency p = cur) q"

record match_result =
  mGameId :: string
  mGameState :: game
  mPosition :: "position option"
  gameStarted :: bool
  inQueue :: bool

definition enqueueAndWait ::
  "manager \<Rightarrow> string \<Rightarrow> string option \<Rightarrow> rat \<Rightarrow> string \<Rightarrow> string option \<Rightarrow> string \<Rightarrow> int
     \<Rightarrow> (string \<Rightarrow> bool) \<Rightarrow> manager \<times> (error + match_result)" where
  "enqueueAndWait m pid sock stake cur walletAddress uuid now hasPts =
     (let q1 = filter (\<lambda>p. playerId p \<noteq> pid) (publicQueue m);
          m1 = m\<lparr>publicQueue := q1 @ [\<lparr>playerId = pid, tSocketId = sock, tStakeAmount = stake,
                    tCurrency = cur, tWalletAddress = walletAddress, queuedAt = now\<rparr>]\<rparr>
      in case createGame m1 ''public'' stake cur (Some pid) sock walletAddress None uuid now hasPts of
           (m2, Inr (gid, gs, pos)) \<Rightarrow>
             (m2, Inr \<lparr>mGameId = gid, mGameState = gs, mPosition = pos, gameStarted = False,
                       inQueue = True\<rparr>)
         | (m2, Inl e) \<Rightarrow> (m2, Inl (Error ''Failed to enter matchmaking queue'')))"

definition findRandomMatch ::
  "manager \<Rightarrow> string \<Rightarrow> string option \<Rightarrow> rat \<Rightarrow> string \<Rightarrow> string option \<Rightarrow> string \<Rightarrow> string
     \<Rightarrow> int \<Rightarrow> (string \<Rightarrow> bool) \<Rightarrow> manager \<times> (error + match_result)" where
  "findRandomMatch m pid sock stake0 cur0 walletAddress uuid1 uuid2 now hasPts =
     (let m1 = (case playerGames m pid of
                  None \<Rightarrow> m
                | Some existingGameId \<Rightarrow>
                    (case getGame m existingGameId of
                       None \<Rightarrow> m
                     | Some existingGame \<Rightarrow>
                         if gameStatus existingGame \<noteq> finished then fst (removePlayer m pid) else m));
          (stake, cur) =
             (if cur0 = ''points''
              then (if truthy walletAddress \<and> \<not> hasPts (the walletAddress)
                    then (1 / 100, ''sol'') else (100, ''points''))
              else (stake0, cur0))
      in case findWaitingGame (games m1) pid stake cur of
           Some (gId, gameState) \<Rightarrow>
             (case joinGame m1 gId pid sock walletAddress hasPts of
                (m2, Inl e) \<Rightarrow> (m2, Inl e)
              | (m2, Inr (gid, gs, pos, started)) \<Rightarrow>
                  (m2, Inr \<lparr>mGameId = gid, mGameState = gs, mPosition = Some pos,
                            gameStarted = started, inQueue = False\<rparr>))
         | None \<Rightarrow>
             (case findQueuedPlayer (publicQueue m1) pid stake cur of
                None \<Rightarrow> enqueueAndWait m1 pid sock stake cur walletAddress uuid1 now hasPts
              | Some queuedPlayer \<Rightarrow>
                  let m2 = m1\<lparr>publicQueue := filter (\<lambda>p. playerId p \<noteq> playerId queuedPlayer)
                                                (publicQueue m1)\<rparr>
                  in (case createGame m2 ''public'' stake cur (Some (playerId queuedPlayer))
                             (tSocketId queuedPlayer) (tWalletAddress queuedPlayer) None uuid1 now hasPts of
                        (m3, Inl e) \<Rightarrow> enqueueAndWait m3 pid sock stake cur walletAddress uuid2 now hasPts
                      | (m3, Inr (newId, newGame, p)) \<Rightarrow>
                          (case joinGame m3 newId pid sock walletAddress hasPts of
                             (m4, Inl e) \<Rightarrow>
                               enqueueAndWait m4 pid sock stake cur walletAddress uuid2 now hasPts
                           | (m4, Inr (gid, gs, pos, started)) \<Rightarrow>
                               (m4, Inr \<lparr>mGameId = gid, mGameState = gs, mPosition = Some pos,
                                         gameStarted = True, inQueue = False\<rparr>)))))"

section \<open>Socket handlers (sockets/socketHandlers)\<close>

text \<open>
  The module state of the socket handlers beside the game manager: the live round timer
  of each game with its countdown, the two socket maps, the callbacks that \<^verbatim>\<open>setTimeout\<close>
  has pending (delay in milliseconds), and the calls made to the profile store and the
  settlement service. Messages sent to clients change no state and are not modelled.
\<close>

datatype jsvalue = StringV string | GameV game

datatype task = CleanupOldGamesTask int | ForfeitCheckTask string jsvalue

datatype ext_call =
    ProcessPointsGame string "string option" "string option" "string option"
  | UpdateUserGameStats "string option" bool string
  | RecordGameHistory string
  | AutoFinalizeSolGame string "string option" "string option" rat

record server =
  gm :: manager
  gameTimers :: "string \<rightharpoonup> int"
  playerSockets :: "string \<rightharpoonup> string"
  socketPlayers :: "string \<rightharpoonup> string"
  scheduled :: "(nat \<times> task) list"
  external :: "ext_call list"

definition startRoundTimer :: "server \<Rightarrow> string \<Rightarrow> int \<Rightarrow> server" where
  "startRoundTimer srv gid duration = srv\<lparr>gameTimers := (gameTimers srv)(gid \<mapsto> duration)\<rparr>"

definition clearTimer :: "server \<Rightarrow> string \<Rightarrow> server" where
  "clearTimer srv gid = srv\<lparr>gameTimers := (gameTimers srv)(gid := None)\<rparr>"

definition startNextRound :: "server \<Rightarrow> string \<Rightarrow> server" where
  "startNextRound srv gid =
     (case getGame (gm srv) gid of
        None \<Rightarrow> srv
      | Some gameState \<Rightarrow>
          if gameStatus gameState \<noteq> playing then srv
          else
            let g1 = gameState\<lparr>currentRound := currentRound gameState + 1,
                       player1 := (player1 gameState)\<lparr>currentMove := None, ready := False\<rparr>,
                       player2 := (player2 gameState)\<lparr>currentMove := None, ready := False\<rparr>\<rparr>
            in startRoundTimer (srv\<lparr>gm := setGame (gm srv) gid g1\<rparr>) gid 15)"

text \<open>
  \<^verbatim>\<open>processGameCompletion\<close> marks the game before its first \<^verbatim>\<open>await\<close>; what follows are
  calls to the collaborators, listed in the order the source makes them when none of them
  throws. \<^verbatim>\<open>processPointsGame\<close> and \<^verbatim>\<open>autoFinalizeSolGame\<close> are the settlement of the two
  currencies.
\<close>

definition processGameCompletion :: "string \<Rightarrow> game \<Rightarrow> position \<Rightarrow> game \<times> ext_call list" where
  "processGameCompletion gid gameState gw =
     (if completionProcessed gameState then (gameState, [])
      else
        let g1 = gameState\<lparr>completionProcessed := True\<rparr>;
            player1Wallet = wallet (player1 g1);
            player2Wallet = wallet (player2 g1);
            winnerWallet = (if gw = Position1 then player1Wallet else player2Wallet)
        in if \<not> truthy player1Wallet \<or> \<not> truthy player2Wallet then (g1, [])
           else if \<not> truthy winnerWallet then (g1, [])
           else if currency g1 = ''points''
           then (g1, [ProcessPointsGame gid player1Wallet player2Wallet winnerWallet])
           else if currency g1 = ''sol''
           then (g1, [UpdateUserGameStats player1Wallet (winnerWallet = player1Wallet) gid,
                      UpdateUserGameStats player2Wallet (winnerWallet = player2Wallet) gid,
                      RecordGameHistory gid,
                      AutoFinalizeSolGame gid winnerWallet
                        (if winnerWallet = player1Wallet then player2Wallet else player1Wallet)
                        (stakeAmount g1)])
           else (g1, []))"

text \<open>
  \<^verbatim>\<open>handleGameFinished(gameId, gameState, io)\<close>: both callers pass the object that the
  manager holds under \<^verbatim>\<open>gameId\<close>, so the model reads the game there and writes it back.
\<close>

definition deleteIfTruthy :: "string option \<Rightarrow> (string \<rightharpoonup> string) \<Rightarrow> (string \<rightharpoonup> string)" where
  "deleteIfTruthy i pg = (case i of None \<Rightarrow> pg | Some k \<Rightarrow> if truthy (Some k) then pg(k := None) else pg)"

definition handleGameFinished :: "server \<Rightarrow> string \<Rightarrow> server" where
  "handleGameFinished srv gid =
     (case getGame (gm srv) gid of
        None \<Rightarrow> srv
      | Some gameState \<Rightarrow>
          let srv1 = clearTimer srv gid;
              (g1, calls) =
                 (if truthy (winner gameState) \<and> \<not> processed gameState
                  then processGameCompletion gid (gameState\<lparr>processed := True\<rparr>)
                         (if winner gameState = idP (player1 gameState) then Position1 else Position2)
                  else (gameState, []));
              m1 = setGame (gm srv1) gid g1;
              m2 = m1\<lparr>playerGames := deleteIfTruthy (idP (player2 g1))
                                         (deleteIfTruthy (idP (player1 g1)) (playerGames m1))\<rparr>
          in srv1\<lparr>gm := m2, external := external srv1 @ calls,
                   scheduled := scheduled srv1 @ [(30000, CleanupOldGamesTask 0)]\<rparr>)"

text \<open>
  \<^verbatim>\<open>handleTimeUp\<close>. \<open>shuffled\<close> is the array that \<^verbatim>\<open>[...moves].sort(() => Math.random() - 0.5)\<close>
  returns, \<open>r1\<close> and \<open>r2\<close> are the values of \<^verbatim>\<open>Math.floor(Math.random() * moves.length)\<close>
  for the two slots. Reading an array beyond its end gives \<^verbatim>\<open>undefined\<close>.
\<close>

definition nthJS :: "'a list \<Rightarrow> nat \<Rightarrow> 'a option" where
  "nthJS xs i = (if i < length xs then Some (xs ! i) else None)"

definition timeoutMoves :: "string list" where
  "timeoutMoves = [''rock'', ''paper'', ''scissors'']"

definition assignTimeoutMoves ::
  "game \<Rightarrow> string list \<Rightarrow> nat \<Rightarrow> nat \<Rightarrow> game \<times> (string option \<times> string option) list" where
  "assignTimeoutMoves gameState shuffled r1 r2 =
     (let needs1 = (\<not> truthy (currentMove (player1 gameState)) \<and> truthy (idP (player1 gameState)));
          needs2 = (\<not> truthy (currentMove (player2 gameState)) \<and> truthy (idP (player2 gameState)))
      in if needs1 \<and> needs2
         then
           let player1Move = nthJS shuffled 0;
               player2Move = nthJS shuffled 1
           in (gameState\<lparr>player1 := (player1 gameState)\<lparr>currentMove := player1Move\<rparr>,
                          player2 := (player2 gameState)\<lparr>currentMove := player2Move\<rparr>\<rparr>,
               [(idP (player1 gameState), player1Move), (idP (player2 gameState), player2Move)])
         else
           let (g1, a1) = (if needs1
                           then (gameState\<lparr>player1 := (player1 gameState)\<lparr>currentMove := nthJS timeoutMoves r1\<rparr>\<rparr>,
                                 [(idP (player1 gameState), nthJS timeoutMoves r1)])
                           else (gameState, []));
               (g2, a2) = (if needs2
                           then (g1\<lparr>player2 := (player2 g1)\<lparr>currentMove := nthJS timeoutMoves r2\<rparr>\<rparr>,
                                 a1 @ [(idP (player2 g1), nthJS timeoutMoves r2)])
                           else (g1, a1))
           in (g2, a2))"

definition handleTimeUp :: "server \<Rightarrow> string \<Rightarrow> string list \<Rightarrow> nat \<Rightarrow> nat \<Rightarrow> int \<Rightarrow> server" where
  "handleTimeUp srv gid shuffled r1 r2 now =
     (case getGame (gm srv) gid of
        None \<Rightarrow> srv
      | Some gameState \<Rightarrow>
          let (g1, autoAssignedMoves) = assignTimeoutMoves gameState shuffled r1 r2;
              srv1 = srv\<lparr>gm := setGame (gm srv) gid g1\<rparr>
          in if autoAssignedMoves \<noteq> []
                \<and> truthy (currentMove (player1 g1)) \<and> truthy (currentMove (player2 g1))
             then (case processRoundDirectly (gm srv1) gid now of
                     (m2, Inl e) \<Rightarrow> srv1\<lparr>gm := m2\<rparr>
                   | (m2, Inr (rid, gs2, roundComplete, roundResult)) \<Rightarrow>
                       if roundComplete
                       then (case roundResult of
                               None \<Rightarrow> srv1\<lparr>gm := m2\<rparr>
                             | Some rr \<Rightarrow>
                                 if gameFinished rr then handleGameFinished (srv1\<lparr>gm := m2\<rparr>) gid
                                 else startNextRound (srv1\<lparr>gm := m2\<rparr>) gid)
                       else srv1\<lparr>gm := m2\<rparr>)
             else srv1)"

text \<open>The callback of the interval that \<^verbatim>\<open>startRoundTimer\<close> installs, one call per second.\<close>

definition timerTick :: "server \<Rightarrow> string \<Rightarrow> string list \<Rightarrow> nat \<Rightarrow> nat \<Rightarrow> int \<Rightarrow> server" where
  "timerTick srv gid shuffled r1 r2 now =
     (case gameTimers srv gid of
        None \<Rightarrow> srv
      | Some c \<Rightarrow>
          let countdown = c - 1 in
          (case getGame (gm srv) gid of
             None \<Rightarrow> clearTimer srv gid
           | Some currentGameState \<Rightarrow>
               if gameStatus currentGameState = finished then clearTimer srv gid
               else if countdown \<le> 0 then handleTimeUp (clearTimer srv gid) gid shuffled r1 r2 now
               else srv\<lparr>gameTimers := (gameTimers srv)(gid \<mapsto> countdown)\<rparr>))"

text \<open>The \<^verbatim>\<open>submit_move\<close> handler, for the player id it has resolved.\<close>

definition onSubmitMove :: "server \<Rightarrow> string \<Rightarrow> string \<Rightarrow> string option \<Rightarrow> int \<Rightarrow> server" where
  "onSubmitMove srv pid move dataGameId now =
     (case submitMove (gm srv) pid move dataGameId now of
        (m1, Inl e) \<Rightarrow> srv\<lparr>gm := m1\<rparr>
      | (m1, Inr (gid, gs, roundComplete, roundResult)) \<Rightarrow>
          let srv1 = srv\<lparr>gm := m1\<rparr> in
          if roundComplete
          then (case roundResult of
                  None \<Rightarrow> clearTimer srv1 gid
                | Some rr \<Rightarrow>
                    if gameFinished rr then handleGameFinished (clearTimer srv1 gid) gid
                    else startNextRound (clearTimer srv1 gid) gid)
          else srv1)"

text \<open>
  The \<^verbatim>\<open>disconnect\<close> handler. It takes the result of \<^verbatim>\<open>getPlayerGame\<close>, which is the game
  state, for a game id and looks it up with \<^verbatim>\<open>getGame\<close>; a \<^verbatim>\<open>Map\<close> whose keys are strings
  holds nothing under an object. The check it would defer calls \<^verbatim>\<open>gameManager.removeGame\<close>,
  which the manager does not define.
\<close>

definition getGameV :: "manager \<Rightarrow> jsvalue \<Rightarrow> game option" where
  "getGameV m k = (case k of StringV gid \<Rightarrow> getGame m gid | GameV obj \<Rightarrow> None)"

definition onDisconnect :: "server \<Rightarrow> string \<Rightarrow> server" where
  "onDisconnect srv sock =
     (case socketPlayers srv sock of
        None \<Rightarrow> srv
      | Some pid \<Rightarrow>
          if \<not> truthy (Some pid) then srv
          else
            let srv1 =
                  (case getPlayerGame (gm srv) pid of
                     None \<Rightarrow> srv
                   | Some obj \<Rightarrow>
                       (case getGameV (gm srv) (GameV obj) of
                          None \<Rightarrow> srv
                        | Some game \<Rightarrow>
                            if gameStatus game = playing
                            then srv\<lparr>scheduled := scheduled srv @ [(5000, ForfeitCheckTask pid (GameV obj))]\<rparr>
                            else srv))
            in srv1\<lparr>playerSockets := (playerSockets srv1)(pid := None),
                     socketPlayers := (socketPlayers srv1)(sock := None)\<rparr>)"

definition forfeitCheck :: "server \<Rightarrow> string \<Rightarrow> jsvalue \<Rightarrow> server \<times> (error + unit)" where
  "forfeitCheck srv pid k =
     (if playerSockets srv pid = None
      then (srv, Inl (Error ''gameManager.removeGame is not a function''))
      else (srv, Inr ()))"

section \<open>Example states\<close>

text \<open>
  A points game that two players have joined, and the states a round takes it through;
  the concrete instances of the theorems below are taken at these.
\<close>

definition exGame0 :: game where
  "exGame0 = createGameState ''g1'' ''public'' 100 ''points'' 0"

definition exPlaying :: game where
  "exPlaying = fst (addPlayer (fst (addPlayer exGame0 ''p1'' (Some ''s1'') (Some ''w1'')))
                      ''p2'' (Some ''s2'') (Some ''w2''))"

definition exOneMove :: game where
  "exOneMove = fst (processMove exPlaying ''p2'' ''scissors'' 1)"

definition exBothMoves :: game where
  "exBothMoves = exOneMove\<lparr>player1 := (player1 exOneMove)\<lparr>currentMove := Some ''rock''\<rparr>\<rparr>"

definition exManager :: "game \<Rightarrow> manager" where
  "exManager g = \<lparr>games = [(''g1'', g)], playerGames = [''p1'' \<mapsto> ''g1'', ''p2'' \<mapsto> ''g1''],
                  publicQueue = []\<rparr>"

definition exServer :: "game \<Rightarrow> server" where
  "exServer g = \<lparr>gm = exManager g, gameTimers = [''g1'' \<mapsto> 15],
                 playerSockets = [''p1'' \<mapsto> ''s1'', ''p2'' \<mapsto> ''s2''],
                 socketPlayers = [''s1'' \<mapsto> ''p1'', ''s2'' \<mapsto> ''p2''],
                 scheduled = [], external = []\<rparr>"

section \<open>Determining the round winner\<close>

lemma includes_VALID_MOVES:
  "includesJS VALID_MOVES v \<longleftrightarrow> v = Some ''rock'' \<or> v = Some ''paper'' \<or> v = Some ''scissors''"
  by (cases v) (auto simp: includesJS_def VALID_MOVES_def)

text \<open>
  C2. On two valid moves \<open>determineWinner\<close> returns \<open>Draw\<close> exactly when they are equal,
  \<open>Player1\<close> exactly on (rock, scissors), (scissors, paper) and (paper, rock), and
  \<open>Player2\<close> otherwise, so that swapping the moves swaps the winner; on every pair with
  a value that is not a valid move it throws the invalid-move error.
\<close>

theorem determineWinner_correct:
  "(includesJS VALID_MOVES m1 \<and> includesJS VALID_MOVES m2 \<longrightarrow>
      (determineWinner m1 m2 = Inr Draw \<longleftrightarrow> m1 = m2) \<and>
      (determineWinner m1 m2 = Inr Player1 \<longleftrightarrow>
         (m1, m2) \<in> {(Some ''rock'', Some ''scissors''), (Some ''scissors'', Some ''paper''),
                      (Some ''paper'', Some ''rock'')}) \<and>
      (determineWinner m1 m2 = Inr Player2 \<longleftrightarrow>
         m1 \<noteq> m2 \<and> (m1, m2) \<notin> {(Some ''rock'', Some ''scissors''),
                      (Some ''scissors'', Some ''paper''), (Some ''paper'', Some ''rock'')}) \<and>
      (determineWinner m1 m2 = Inr Player1 \<longleftrightarrow> determineWinner m2 m1 = Inr Player2)) \<and>
   (\<not> includesJS VALID_MOVES m1 \<or> \<not> includesJS VALID_MOVES m2 \<longrightarrow>
      determineWinner m1 m2 = Inl (Error ''Invalid move provided''))"
proof (rule conjI; rule impI)
  assume "\<not> includesJS VALID_MOVES m1 \<or> \<not> includesJS VALID_MOVES m2"
  then show "determineWinner m1 m2 = Inl (Error ''Invalid move provided'')"
    by (simp add: determineWinner_def)
next
  assume v: "includesJS VALID_MOVES m1 \<and> includesJS VALID_MOVES m2"
  then have m1: "m1 = Some ''rock'' \<or> m1 = Some ''paper'' \<or> m1 = Some ''scissors''"
    and m2: "m2 = Some ''rock'' \<or> m2 = Some ''paper'' \<or> m2 = Some ''scissors''"
    by (simp_all add: includes_VALID_MOVES)
  show
    "(determineWinner m1 m2 = Inr Draw \<longleftrightarrow> m1 = m2) \<and>
      (determineWinner m1 m2 = Inr Player1 \<longleftrightarrow>
         (m1, m2) \<in> {(Some ''rock'', Some ''scissors''), (Some ''scissors'', Some ''paper''),
                      (Some ''paper'', Some ''rock'')}) \<and>
      (determineWinner m1 m2 = Inr Player2 \<longleftrightarrow>
         m1 \<noteq> m2 \<and> (m1, m2) \<notin> {(Some ''rock'', Some ''scissors''),
                      (Some ''scissors'', Some ''paper''), (Some ''paper'', Some ''rock'')}) \<and>
      (determineWinner m1 m2 = Inr Player1 \<longleftrightarrow> determineWinner m2 m1 = Inr Player2)"
    using m1 m2
    by (elim disjE) (simp_all add: determineWinner_def includes_VALID_MOVES winConditions_def)
qed

theorem determineWinner_correct_witness:
  "determineWinner (Some ''rock'') (Some ''scissors'') = Inr Player1 \<and>
   determineWinner (Some ''scissors'') (Some ''rock'') = Inr Player2 \<and>
   determineWinner (Some ''paper'') (Some ''paper'') = Inr Draw \<and>
   determineWinner (Some ''lizard'') (Some ''rock'') = Inl (Error ''Invalid move provided'') \<and>
   determineWinner (Some ''rock'') None = Inl (Error ''Invalid move provided'')"
  using determineWinner_correct [of "Some ''rock''" "Some ''scissors''"]
    determineWinner_correct [of "Some ''scissors''" "Some ''rock''"]
    determineWinner_correct [of "Some ''paper''" "Some ''paper''"]
    determineWinner_correct [of "Some ''lizard''" "Some ''rock''"]
    determineWinner_correct [of "Some ''rock''" None]
  by (simp add: includes_VALID_MOVES)

lemma getGame_setGame: "getGame (setGame m gid g) gid' = (if gid' = gid then Some g else getGame m gid')"
  by (simp add: getGame_def setGame_def update_conv')

lemma processRound_Inl:
  "determineWinner (currentMove (player1 g)) (currentMove (player2 g)) = Inl e \<Longrightarrow>
     processRound g now = (g, Inl e)"
  by (simp add: processRound_def)

lemma processRound_Inr:
  assumes "determineWinner (currentMove (player1 g)) (currentMove (player2 g)) = Inr rw"
  shows "\<exists>g' rr.
      processRound g now = (g', Inr (True, Some rr)) \<and>
      moveHistory g' = moveHistory g @
        [\<lparr>hRound = currentRound g, player1Move = currentMove (player1 g),
          player2Move = currentMove (player2 g), hWinner = rw, timestamp = now\<rparr>] \<and>
      wins (player1 g') = wins (player1 g) + (if rw = Player1 then 1 else 0) \<and>
      wins (player2 g') = wins (player2 g) + (if rw = Player2 then 1 else 0) \<and>
      (if wins (player1 g') \<ge> 3 then gameStatus g' = finished \<and> winner g' = idP (player1 g)
       else if wins (player2 g') \<ge> 3 then gameStatus g' = finished \<and> winner g' = idP (player2 g)
       else gameStatus g' = gameStatus g \<and> winner g' = winner g) \<and>
      currentMove (player1 g') = currentMove (player1 g) \<and>
      currentMove (player2 g') = currentMove (player2 g) \<and>
      currentRound g' = currentRound g \<and>
      idP (player1 g') = idP (player1 g) \<and> idP (player2 g') = idP (player2 g) \<and>
      processed g' = processed g \<and> completionProcessed g' = completionProcessed g \<and>
      gameFinished rr = (gameStatus g' = finished)"
  using assms by (cases rw) (simp_all add: processRound_def Let_def WINNING_SCORE_def)

lemma processRound_shape:
  "processRound g now = (g', r) \<Longrightarrow>
     (case r of Inl e \<Rightarrow> g' = g
      | Inr (c, rr) \<Rightarrow> c \<and> length (moveHistory g') = length (moveHistory g) + 1 \<and>
           currentMove (player1 g') = currentMove (player1 g) \<and>
           currentMove (player2 g') = currentMove (player2 g))"
proof (cases "determineWinner (currentMove (player1 g)) (currentMove (player2 g))")
  case (Inl e)
  assume "processRound g now = (g', r)"
  with processRound_Inl[OF Inl, of now] show ?thesis by auto
next
  case (Inr rw)
  assume "processRound g now = (g', r)"
  with processRound_Inr[OF Inr, of now] show ?thesis by auto
qed

lemma processMove_unfold:
  assumes "includesJS VALID_MOVES (Some mv)" "gameStatus g = playing"
  shows "idP (player1 g) = Some pid \<Longrightarrow>
           processMove g pid mv now =
             (if truthy (currentMove (player2 g))
              then processRound (g\<lparr>player1 := (player1 g)\<lparr>currentMove := Some mv\<rparr>\<rparr>) now
              else (g\<lparr>player1 := (player1 g)\<lparr>currentMove := Some mv\<rparr>\<rparr>, Inr (False, None)))"
    and "idP (player1 g) \<noteq> Some pid \<Longrightarrow> idP (player2 g) = Some pid \<Longrightarrow>
           processMove g pid mv now =
             (if truthy (currentMove (player1 g))
              then processRound (g\<lparr>player2 := (player2 g)\<lparr>currentMove := Some mv\<rparr>\<rparr>) now
              else (g\<lparr>player2 := (player2 g)\<lparr>currentMove := Some mv\<rparr>\<rparr>, Inr (False, None)))"
proof -
  from assms(1) have tm: "truthy (Some mv)"
    by (auto simp: includes_VALID_MOVES truthy_def)
  show "idP (player1 g) = Some pid \<Longrightarrow>
           processMove g pid mv now =
             (if truthy (currentMove (player2 g))
              then processRound (g\<lparr>player1 := (player1 g)\<lparr>currentMove := Some mv\<rparr>\<rparr>) now
              else (g\<lparr>player1 := (player1 g)\<lparr>currentMove := Some mv\<rparr>\<rparr>, Inr (False, None)))"
    using assms tm by (simp add: processMove_def Let_def)
  show "idP (player1 g) \<noteq> Some pid \<Longrightarrow> idP (player2 g) = Some pid \<Longrightarrow>
           processMove g pid mv now =
             (if truthy (currentMove (player1 g))
              then processRound (g\<lparr>player2 := (player2 g)\<lparr>currentMove := Some mv\<rparr>\<rparr>) now
              else (g\<lparr>player2 := (player2 g)\<lparr>currentMove := Some mv\<rparr>\<rparr>, Inr (False, None)))"
    using assms tm by (simp add: processMove_def Let_def)
qed

lemma processMove_success_pre:
  assumes "processMove g pid mv now = (g', Inr r)"
  shows "includesJS VALID_MOVES (Some mv) \<and> gameStatus g = playing \<and>
         (idP (player1 g) = Some pid \<or> idP (player2 g) = Some pid)"
proof -
  have a: "includesJS VALID_MOVES (Some mv)"
    using assms by (cases "includesJS VALID_MOVES (Some mv)") (simp_all add: processMove_def)
  have b: "gameStatus g = playing"
    using assms a by (cases "gameStatus g = playing") (simp_all add: processMove_def)
  have c: "idP (player1 g) = Some pid \<or> idP (player2 g) = Some pid"
    using assms a b
    by (cases "idP (player1 g) = Some pid \<or> idP (player2 g) = Some pid")
       (simp_all add: processMove_def Let_def)
  from a b c show ?thesis by simp
qed

lemma processMove_resolution:
  assumes "processMove g pid mv now = (g', Inr (rc, rr))"
  shows "(rc \<longleftrightarrow> truthy (currentMove (player1 g')) \<and> truthy (currentMove (player2 g'))) \<and>
     (rc \<longleftrightarrow> truthy (currentMove (if idP (player1 g) = Some pid then player2 g else player1 g))) \<and>
     (if idP (player1 g) = Some pid
      then currentMove (player1 g') = Some mv \<and> currentMove (player2 g') = currentMove (player2 g)
      else currentMove (player2 g') = Some mv \<and> currentMove (player1 g') = currentMove (player1 g)) \<and>
     length (moveHistory g') = length (moveHistory g) + (if rc then 1 else 0)"
proof -
  from processMove_success_pre[OF assms]
  have valid: "includesJS VALID_MOVES (Some mv)" and pl: "gameStatus g = playing"
    and inGame: "idP (player1 g) = Some pid \<or> idP (player2 g) = Some pid"
    by simp_all
  from valid have tm: "truthy (Some mv)"
    by (auto simp: includes_VALID_MOVES truthy_def)
  show ?thesis
  proof (cases "idP (player1 g) = Some pid")
    case True
    note u = processMove_unfold(1)[OF valid pl True, of now]
    show ?thesis
    proof (cases "truthy (currentMove (player2 g))")
      case t2: True
      with u assms
      have "processRound (g\<lparr>player1 := (player1 g)\<lparr>currentMove := Some mv\<rparr>\<rparr>) now = (g', Inr (rc, rr))"
        by simp
      from processRound_shape[OF this] True t2 tm show ?thesis by simp
    next
      case f2: False
      with u assms have "g' = g\<lparr>player1 := (player1 g)\<lparr>currentMove := Some mv\<rparr>\<rparr>" "\<not> rc"
        by simp_all
      with True f2 show ?thesis by simp
    qed
  next
    case False
    with inGame have p2: "idP (player2 g) = Some pid" by simp
    note u = processMove_unfold(2)[OF valid pl False p2, of now]
    show ?thesis
    proof (cases "truthy (currentMove (player1 g))")
      case t1: True
      with u assms
      have "processRound (g\<lparr>player2 := (player2 g)\<lparr>currentMove := Some mv\<rparr>\<rparr>) now = (g', Inr (rc, rr))"
        by simp
      from processRound_shape[OF this] False t1 tm show ?thesis by simp
    next
      case f1: False
      with u assms have "g' = g\<lparr>player2 := (player2 g)\<lparr>currentMove := Some mv\<rparr>\<rparr>" "\<not> rc"
        by simp_all
      with False f1 show ?thesis by simp
    qed
  qed
qed

lemma exPlaying_eq:
  "exPlaying = \<lparr>gameId = ''g1'', gameType = ''public'', currency = ''points'', stakeAmount = 100,
      player1 = \<lparr>idP = Some ''p1'', socketId = Some ''s1'', wallet = Some ''w1'', wins = 0,
                 currentMove = None, ready = False, stakeDeposited = False\<rparr>,
      player2 = \<lparr>idP = Some ''p2'', socketId = Some ''s2'', wallet = Some ''w2'', wins = 0,
                 currentMove = None, ready = False, stakeDeposited = False\<rparr>,
      currentRound = 1, gameStatus = playing, winner = None, moveHistory = [], createdAt = 0,
      processed = False, completionProcessed = False, readyForCompletion = False,
      completionData = None\<rparr>"
  by (simp add: exPlaying_def exGame0_def createGameState_def emptyPlayer_def addPlayer_def truthy_def)

lemma exOneMove_eq:
  "exOneMove = exPlaying\<lparr>player2 := (player2 exPlaying)\<lparr>currentMove := Some ''scissors''\<rparr>\<rparr>"
  by (simp add: exOneMove_def exPlaying_eq processMove_def includes_VALID_MOVES truthy_def)

lemma processRoundDirectly_missing:
  assumes "getGame m gid = Some gs"
    and "\<not> truthy (currentMove (player1 gs)) \<or> \<not> truthy (currentMove (player2 gs))"
  shows "processRoundDirectly m gid now = (m, Inl (Error ''Both players must have moves to process round''))"
  using assms by (auto simp: processRoundDirectly_def)

lemma includes_truthy: "includesJS VALID_MOVES v \<Longrightarrow> truthy v"
  by (auto simp: includes_VALID_MOVES truthy_def)

lemma processRoundDirectly_valid:
  assumes g: "getGame m gid = Some gs"
    and v: "includesJS VALID_MOVES (currentMove (player1 gs))" "includesJS VALID_MOVES (currentMove (player2 gs))"
  shows "\<exists>gs' rr. processRound gs now = (gs', Inr (True, Some rr)) \<and>
           processRoundDirectly m gid now = (setGame m gid gs', Inr (gid, gs', True, Some rr))"
proof -
  from v have "\<exists>rw. determineWinner (currentMove (player1 gs)) (currentMove (player2 gs)) = Inr rw"
    by (simp add: determineWinner_def)
  then obtain rw where "determineWinner (currentMove (player1 gs)) (currentMove (player2 gs)) = Inr rw" ..
  from processRound_Inr[OF this, of now] obtain gs' rr
    where pr: "processRound gs now = (gs', Inr (True, Some rr))" by blast
  from g v pr have "processRoundDirectly m gid now = (setGame m gid gs', Inr (gid, gs', True, Some rr))"
    by (simp add: processRoundDirectly_def includes_truthy)
  with pr show ?thesis by blast
qed

lemma processMove_error_no_round:
  assumes "processMove g pid mv now = (g', Inl e)"
  shows "moveHistory g' = moveHistory g \<and> wins (player1 g') = wins (player1 g) \<and>
         wins (player2 g') = wins (player2 g)"
proof (cases "includesJS VALID_MOVES (Some mv) \<and> gameStatus g = playing \<and>
         (idP (player1 g) = Some pid \<or> idP (player2 g) = Some pid)")
  case False
  with assms have "g' = g"
    by (auto simp: processMove_def Let_def split: if_splits)
  then show ?thesis by simp
next
  case True
  then have valid: "includesJS VALID_MOVES (Some mv)" and pl: "gameStatus g = playing" by simp_all
  show ?thesis
  proof (cases "idP (player1 g) = Some pid")
    case p1: True
    note u = processMove_unfold(1)[OF valid pl p1, of now]
    show ?thesis
    proof (cases "truthy (currentMove (player2 g))")
      case True
      with u assms have "processRound (g\<lparr>player1 := (player1 g)\<lparr>currentMove := Some mv\<rparr>\<rparr>) now = (g', Inl e)"
        by simp
      from processRound_shape[OF this] show ?thesis by simp
    next
      case False
      with u assms show ?thesis by simp
    qed
  next
    case np1: False
    with True have p2: "idP (player2 g) = Some pid" by simp
    note u = processMove_unfold(2)[OF valid pl np1 p2, of now]
    show ?thesis
    proof (cases "truthy (currentMove (player1 g))")
      case True
      with u assms have "processRound (g\<lparr>player2 := (player2 g)\<lparr>currentMove := Some mv\<rparr>\<rparr>) now = (g', Inl e)"
        by simp
      from processRound_shape[OF this] show ?thesis by simp
    next
      case False
      with u assms show ?thesis by simp
    qed
  qed
qed

text \<open>
  C6. With a valid move in both slots \<open>processRound\<close> appends one history entry that
  carries the round number of the game as it is, adds one win to the round's winner and
  none on a draw, finishes the game for the first slot whose wins have reached three, with
  that slot's player as the winner, and leaves both moves and the round number as they
  were. The moves are cleared and the round number goes up by one in \<open>startNextRound\<close>.
\<close>

theorem processRound_resolves_round:
  "(includesJS VALID_MOVES (currentMove (player1 g)) \<and>
    includesJS VALID_MOVES (currentMove (player2 g)) \<longrightarrow>
     (\<exists>rw g' rr.
        determineWinner (currentMove (player1 g)) (currentMove (player2 g)) = Inr rw \<and>
        processRound g now = (g', Inr (True, Some rr)) \<and>
        moveHistory g' = moveHistory g @
          [\<lparr>hRound = currentRound g, player1Move = currentMove (player1 g),
            player2Move = currentMove (player2 g), hWinner = rw, timestamp = now\<rparr>] \<and>
        wins (player1 g') = wins (player1 g) + (if rw = Player1 then 1 else 0) \<and>
        wins (player2 g') = wins (player2 g) + (if rw = Player2 then 1 else 0) \<and>
        (if wins (player1 g') \<ge> 3 then gameStatus g' = finished \<and> winner g' = idP (player1 g)
         else if wins (player2 g') \<ge> 3 then gameStatus g' = finished \<and> winner g' = idP (player2 g)
         else gameStatus g' = gameStatus g \<and> winner g' = winner g) \<and>
        currentMove (player1 g') = currentMove (player1 g) \<and>
        currentMove (player2 g') = currentMove (player2 g) \<and>
        currentRound g' = currentRound g)) \<and>
   (getGame (gm srv) gid = Some gs \<and> gameStatus gs = playing \<longrightarrow>
     (\<exists>gs'. getGame (gm (startNextRound srv gid)) gid = Some gs' \<and>
        currentRound gs' = currentRound gs + 1 \<and>
        currentMove (player1 gs') = None \<and> currentMove (player2 gs') = None))"
proof (rule conjI; rule impI)
  assume v: "includesJS VALID_MOVES (currentMove (player1 g)) \<and>
             includesJS VALID_MOVES (currentMove (player2 g))"
  then have "\<exists>rw. determineWinner (currentMove (player1 g)) (currentMove (player2 g)) = Inr rw"
    by (simp add: determineWinner_def)
  then obtain rw where rw: "determineWinner (currentMove (player1 g)) (currentMove (player2 g)) = Inr rw" ..
  from processRound_Inr[OF rw, of now] rw
  show "\<exists>rw g' rr.
        determineWinner (currentMove (player1 g)) (currentMove (player2 g)) = Inr rw \<and>
        processRound g now = (g', Inr (True, Some rr)) \<and>
        moveHistory g' = moveHistory g @
          [\<lparr>hRound = currentRound g, player1Move = currentMove (player1 g),
            player2Move = currentMove (player2 g), hWinner = rw, timestamp = now\<rparr>] \<and>
        wins (player1 g') = wins (player1 g) + (if rw = Player1 then 1 else 0) \<and>
        wins (player2 g') = wins (player2 g) + (if rw = Player2 then 1 else 0) \<and>
        (if wins (player1 g') \<ge> 3 then gameStatus g' = finished \<and> winner g' = idP (player1 g)
         else if wins (player2 g') \<ge> 3 then gameStatus g' = finished \<and> winner g' = idP (player2 g)
         else gameStatus g' = gameStatus g \<and> winner g' = winner g) \<and>
        currentMove (player1 g') = currentMove (player1 g) \<and>
        currentMove (player2 g') = currentMove (player2 g) \<and>
        currentRound g' = currentRound g"
    by blast
next
  assume "getGame (gm srv) gid = Some gs \<and> gameStatus gs = playing"
  then show "\<exists>gs'. getGame (gm (startNextRound srv gid)) gid = Some gs' \<and>
        currentRound gs' = currentRound gs + 1 \<and>
        currentMove (player1 gs') = None \<and> currentMove (player2 gs') = None"
    by (simp add: startNextRound_def startRoundTimer_def getGame_setGame Let_def)
qed

lemma exBothMoves_eq:
  "exBothMoves = exPlaying\<lparr>player1 := (player1 exPlaying)\<lparr>currentMove := Some ''rock''\<rparr>,
                           player2 := (player2 exPlaying)\<lparr>currentMove := Some ''scissors''\<rparr>\<rparr>"
  by (simp add: exBothMoves_def exOneMove_eq)

theorem processRound_resolves_round_witness:
  "includesJS VALID_MOVES (currentMove (player1 exBothMoves)) \<and>
   includesJS VALID_MOVES (currentMove (player2 exBothMoves)) \<and>
   moveHistory (fst (processRound exBothMoves 7)) =
     [\<lparr>hRound = 1, player1Move = Some ''rock'', player2Move = Some ''scissors'',
       hWinner = Player1, timestamp = 7\<rparr>] \<and>
   wins (player1 (fst (processRound exBothMoves 7))) = 1 \<and>
   wins (player2 (fst (processRound exBothMoves 7))) = 0 \<and>
   gameStatus (fst (processRound exBothMoves 7)) = playing \<and>
   currentMove (player1 (fst (processRound exBothMoves 7))) = Some ''rock'' \<and>
   currentRound (fst (processRound exBothMoves 7)) = 1 \<and>
   getGame (gm (exServer exBothMoves)) ''g1'' = Some exBothMoves \<and>
   gameStatus exBothMoves = playing \<and>
   map_option currentRound (getGame (gm (startNextRound (exServer exBothMoves) ''g1'')) ''g1'') = Some 2 \<and>
   map_option (currentMove \<circ> player1) (getGame (gm (startNextRound (exServer exBothMoves) ''g1'')) ''g1'') = Some None"
  using processRound_resolves_round [of exBothMoves 7 "exServer exBothMoves" "''g1''" exBothMoves]
  by (auto simp add: exBothMoves_eq exPlaying_eq exServer_def exManager_def getGame_def
        includes_VALID_MOVES determineWinner_def winConditions_def)

end
